theory Spec2Isabelle
  imports Complex_Main "HOL-Library.AList"
begin

section \<open>Hyperparameter-search execution: model of \<open>ludwig/hyperopt/execution.py\<close>\<close>

subsection \<open>Python values and exceptions\<close>

text \<open>
  The exceptions the modelled functions raise. A function that may raise returns
  \<open>error + 'a\<close>, with \<open>Inl\<close> the exception.
\<close>

datatype error =
    RuntimeError
  | ValueError
  | KeyError
  | IndexError
  | TypeError
  | AttributeError
  | AssertionError
  | OSError
  | FileExistsError
  | FileNotFoundError
  | NotADirectoryError
  | IsADirectoryError
  | NotImplementedError

text \<open>
  A Python dictionary with string keys is an association list read with \<open>map_of\<close>.
\<close>

type_synonym 'v pydict = "(string \<times> 'v) list"

text \<open>
  A Python float, as far as the source looks at it: a number, an infinity, or NaN. The
  source only compares floats. Numbers compare as reals, each infinity lies beyond all
  numbers, and every comparison with NaN is false.
\<close>

datatype pyfloat = NegInf | Fin real | PosInf | NaN

fun py_lt :: "pyfloat \<Rightarrow> pyfloat \<Rightarrow> bool" where
  "py_lt NaN b = False"
| "py_lt a NaN = False"
| "py_lt a NegInf = False"
| "py_lt PosInf b = False"
| "py_lt NegInf b = True"
| "py_lt a PosInf = True"
| "py_lt (Fin a) (Fin b) = (a < b)"

definition py_gt :: "pyfloat \<Rightarrow> pyfloat \<Rightarrow> bool" where
  "py_gt a b = py_lt b a"

text \<open>
  Dynamically typed values, as evaluation statistics and search-space entries hold them.
  \<open>isinstance(x, float)\<close> is true of \<open>PyFloat\<close> only; \<open>isinstance(x, (int, float))\<close>
  is true of \<open>PyBool\<close>, \<open>PyInt\<close> and \<open>PyFloat\<close> (\<open>bool\<close> is a subclass of \<open>int\<close>).
\<close>

datatype pyval =
    PyNone
  | PyBool bool
  | PyInt int
  | PyFloat pyfloat
  | PyStr string
  | PyList "pyval list"
  | PyDict "(string \<times> pyval) list"


text \<open>Values of \<open>ludwig.constants\<close>, which the source imports.\<close>

definition VALIDATION :: string where
  "VALIDATION = ''validation''"

definition TRAINING :: string where
  "TRAINING = ''training''"

definition MAXIMIZE :: string where
  "MAXIMIZE = ''maximize''"

subsection \<open>Metric extractor\<close>

text \<open>
  The attributes of \<open>RayTuneExecutor\<close> that the metric extractor and the aggregator read.
\<close>

record executor =
  output_feature :: string
  metric :: string
  goal :: string

text \<open>
  Training statistics: split, then feature, then metric, then one value per checkpoint.
\<close>

type_synonym train_stats = "pyfloat list pydict pydict pydict"

text \<open>
  \<open>get_best_function(metric)\<close> of \<open>ludwig.modules.metric_modules\<close> returns the builtin
  \<open>max\<close> or the builtin \<open>min\<close>; the mapping from metric names to directions is a
  parameter \<open>gbf\<close> of the model.
\<close>

datatype best_function = PyMax | PyMin

fun better :: "best_function \<Rightarrow> pyfloat \<Rightarrow> pyfloat \<Rightarrow> bool" where
  "better PyMax a b = py_gt a b"
| "better PyMin a b = py_lt a b"

text \<open>
  The builtins \<open>max(it, key=...)\<close> and \<open>min(it, key=...)\<close> with the key
  \<open>lambda pair: pair[1]\<close>: the first item is the candidate, and a later item replaces it
  only when its key is strictly better. An empty iterable raises \<open>ValueError\<close>.
\<close>

fun py_best_from ::
  "best_function \<Rightarrow> nat \<times> pyfloat \<Rightarrow> (nat \<times> pyfloat) list \<Rightarrow> nat \<times> pyfloat" where
  "py_best_from bf cur [] = cur"
| "py_best_from bf cur (p # ps) =
     (if better bf (snd p) (snd cur) then py_best_from bf p ps else py_best_from bf cur ps)"

definition py_best ::
  "best_function \<Rightarrow> (nat \<times> pyfloat) list \<Rightarrow> error + nat \<times> pyfloat" where
  "py_best bf ps = (case ps of [] \<Rightarrow> Inl ValueError | p # rest \<Rightarrow> Inr (py_best_from bf p rest))"

text \<open>
  \<open>_has_metric(stats, split)\<close>, for a split that is not \<open>None\<close> (every call of the source
  passes one).
\<close>

definition has_metric :: "executor \<Rightarrow> train_stats \<Rightarrow> string \<Rightarrow> bool" where
  "has_metric ex stats split =
     (if stats = [] then False
      else case map_of stats split of
        None \<Rightarrow> False
      | Some split_stats \<Rightarrow>
          (case map_of split_stats (output_feature ex) of
             None \<Rightarrow> False
           | Some feature_stats \<Rightarrow>
               (case map_of feature_stats (metric ex) of
                  None \<Rightarrow> False
                | Some vs \<Rightarrow> length vs > 0)))"

text \<open>
  \<open>select_split or VALIDATION\<close>: the argument is \<open>None\<close> or a string, and \<open>or\<close>
  replaces \<open>None\<close> and the empty string.
\<close>

definition or_validation :: "string option \<Rightarrow> string" where
  "or_validation select_split =
     (case select_split of None \<Rightarrow> VALIDATION | Some s \<Rightarrow> if s = [] then VALIDATION else s)"

text \<open>
  \<open>get_metric_score_from_train_stats(train_stats, select_split)\<close>. Each subscript raises
  \<open>KeyError\<close> on a missing key.
\<close>

definition get_metric_score_from_train_stats ::
  "(string \<Rightarrow> best_function) \<Rightarrow> executor \<Rightarrow> train_stats \<Rightarrow> string option \<Rightarrow> error + pyfloat" where
  "get_metric_score_from_train_stats gbf ex stats select_split =
     (let sel = or_validation select_split
      in case map_of stats sel of
        None \<Rightarrow> Inl KeyError
      | Some train_valiset_stats \<Rightarrow>
          (case map_of train_valiset_stats (output_feature ex) of
             None \<Rightarrow> Inl KeyError
           | Some validation_field_result \<Rightarrow>
               (let best_fn = gbf (metric ex)
                in case map_of validation_field_result (metric ex) of
                  None \<Rightarrow> Inl KeyError
                | Some vs \<Rightarrow>
                    (case py_best best_fn (enumerate 0 vs) of
                       Inl e \<Rightarrow> Inl e
                     | Inr (epoch_best, best_metric) \<Rightarrow> Inr best_metric))))"

text \<open>\<open>get_metric_score(train_stats)\<close>.\<close>

definition get_metric_score ::
  "(string \<Rightarrow> best_function) \<Rightarrow> executor \<Rightarrow> train_stats \<Rightarrow> error + pyfloat" where
  "get_metric_score gbf ex stats =
     (if has_metric ex stats VALIDATION
        then get_metric_score_from_train_stats gbf ex stats (Some VALIDATION)
      else if has_metric ex stats TRAINING
        then get_metric_score_from_train_stats gbf ex stats (Some TRAINING)
      else Inl RuntimeError)"

text \<open>
  The presence test in the words of the specification: the split key exists, the
  feature key exists under it, the metric key exists under the feature, and the list
  found there is not empty. \<open>present_values\<close> returns that list.
\<close>

definition present_values :: "executor \<Rightarrow> train_stats \<Rightarrow> string \<Rightarrow> pyfloat list option" where
  "present_values ex stats split =
     (case map_of stats split of
        None \<Rightarrow> None
      | Some fs \<Rightarrow>
          (case map_of fs (output_feature ex) of
             None \<Rightarrow> None
           | Some ms \<Rightarrow>
               (case map_of ms (metric ex) of
                  None \<Rightarrow> None
                | Some vs \<Rightarrow> if vs = [] then None else Some vs)))"

text \<open>
  What the builtin \<open>max\<close> or \<open>min\<close> selects from a non-empty list of values: the first
  value, replaced by a later one only when the later one is strictly better.
\<close>

definition first_best :: "best_function \<Rightarrow> pyfloat list \<Rightarrow> pyfloat" where
  "first_best bf vs = foldl (\<lambda>cur v. if better bf v cur then v else cur) (hd vs) (tl vs)"

text \<open>
  \<open>str.split(".")\<close>: the pieces between the dots; never an empty list.
\<close>

fun split_dot :: "string \<Rightarrow> string list" where
  "split_dot [] = [[]]"
| "split_dot (c # cs) =
     (if c = CHR ''.'' then [] # split_dot cs
      else (case split_dot cs of
              [] \<Rightarrow> [[c]]
            | w # ws \<Rightarrow> (c # w) # ws))"

text \<open>
  \<open>stats[key]\<close> for a string key: a dictionary raises \<open>KeyError\<close> on a missing key,
  any other value raises \<open>TypeError\<close>.
\<close>

fun py_getitem :: "pyval \<Rightarrow> string \<Rightarrow> error + pyval" where
  "py_getitem (PyDict kvs) k = (case map_of kvs k of None \<Rightarrow> Inl KeyError | Some v \<Rightarrow> Inr v)"
| "py_getitem v k = Inl TypeError"

text \<open>
  The loop of \<open>get_metric_score_from_eval_stats\<close> over the parts of the metric name.
\<close>

fun walk_metric :: "pyval \<Rightarrow> string list \<Rightarrow> error + pyval" where
  "walk_metric stats [] = Inr stats"
| "walk_metric (PyDict kvs) (metric_part # parts) =
     (case map_of kvs metric_part of
        Some v \<Rightarrow> walk_metric v parts
      | None \<Rightarrow> Inl ValueError)"
| "walk_metric stats (metric_part # parts) = Inl ValueError"

definition get_metric_score_from_eval_stats :: "executor \<Rightarrow> pyval \<Rightarrow> error + pyfloat" where
  "get_metric_score_from_eval_stats ex eval_stats =
     (case py_getitem eval_stats (output_feature ex) of
        Inl e \<Rightarrow> Inl e
      | Inr stats \<Rightarrow>
          (case walk_metric stats (split_dot (metric ex)) of
             Inl e \<Rightarrow> Inl e
           | Inr (PyFloat x) \<Rightarrow> Inr x
           | Inr v \<Rightarrow> Inl ValueError))"

text \<open>
  The path walk in the words of the specification: follow the segments through nested
  mappings; \<open>None\<close> when a segment is absent or an intermediate value is not a mapping.
\<close>

fun lookup_path :: "pyval \<Rightarrow> string list \<Rightarrow> pyval option" where
  "lookup_path v [] = Some v"
| "lookup_path (PyDict kvs) (k # ks) =
     (case map_of kvs k of None \<Rightarrow> None | Some v \<Rightarrow> lookup_path v ks)"
| "lookup_path v (k # ks) = None"

text \<open>
  The segments of a dot-separated path put together again, with a dot between two
  segments.
\<close>

fun join_dot :: "string list \<Rightarrow> string" where
  "join_dot [] = []"
| "join_dot [w] = w"
| "join_dot (w # ws) = w @ CHR ''.'' # join_dot ws"

subsection \<open>Search-space codec\<close>

text \<open>
  \<open>json.dumps\<close> and \<open>json.loads\<close> belong to the Python library. The model takes the
  serialiser \<open>dumps\<close> and the parser \<open>loads\<close> of strings as parameters; \<open>json.loads\<close>
  applied to a value that is not a string raises \<open>TypeError\<close>.
\<close>

type_synonym decoder = "pyval \<Rightarrow> error + pyval"

type_synonym decode_ctx = "string \<rightharpoonup> decoder"


text \<open>\<open>identity(x)\<close> returns \<open>x\<close>.\<close>

definition identity :: decoder where
  "identity x = Inr x"





text \<open>
  \<open>decode_values(config, ctx)\<close>: the dictionary comprehension over \<open>config.items()\<close>,
  with \<open>ctx.get(key, identity)\<close> applied to each value.
\<close>

fun decode_values :: "pyval pydict \<Rightarrow> decode_ctx \<Rightarrow> error + pyval pydict" where
  "decode_values [] ctx = Inr []"
| "decode_values ((key, v) # config) ctx =
     (case (case ctx key of None \<Rightarrow> identity | Some f \<Rightarrow> f) v of
        Inl e \<Rightarrow> Inl e
      | Inr v' \<Rightarrow>
          (case decode_values config ctx of
             Inl e \<Rightarrow> Inl e
           | Inr config' \<Rightarrow> Inr ((key, v') # config')))"




subsection \<open>File system\<close>

text \<open>
  What a path names: a regular file with its bytes, or a directory with its entries.
  The file system maps the paths an operation works on to what is there; these paths
  are separate entries, none inside another.
\<close>

datatype node = File string | Dir "(string \<times> node) list"

type_synonym filesystem = "string \<rightharpoonup> node"

definition isdir :: "filesystem \<Rightarrow> string \<Rightarrow> bool" where
  "isdir fs path = (case fs path of Some (Dir es) \<Rightarrow> True | _ \<Rightarrow> False)"

definition exists_path :: "filesystem \<Rightarrow> string \<Rightarrow> bool" where
  "exists_path fs path = (fs path \<noteq> None)"

text \<open>
  \<open>os.path.join(a, b)\<close> for a relative \<open>b\<close>.
\<close>

definition path_join :: "string \<Rightarrow> string \<Rightarrow> string" where
  "path_join a b =
     (if a = [] then b else if last a = CHR ''/'' then a @ b else a @ ''/'' @ b)"

text \<open>
  \<open>ignore_dot_files\<close> names the entries that start with a dot, and \<open>shutil.copytree\<close>
  leaves them out in every directory it copies.
\<close>

definition starts_with_dot :: "string \<Rightarrow> bool" where
  "starts_with_dot f = (case f of [] \<Rightarrow> False | c # cs \<Rightarrow> c = CHR ''.'')"

fun copy_node :: "node \<Rightarrow> node"
  and copy_entries :: "(string \<times> node) list \<Rightarrow> (string \<times> node) list" where
  "copy_node (File bytes) = File bytes"
| "copy_node (Dir es) = Dir (copy_entries es)"
| "copy_entries [] = []"
| "copy_entries ((name, n) # es) =
     (if starts_with_dot name then copy_entries es
      else (name, copy_node n) # copy_entries es)"

text \<open>
  The contents of a tree, listed: the regular files with their paths from the root and
  their bytes, and the directories below the root with their paths. A path is visible
  when none of its segments starts with a dot.
\<close>

fun files_in :: "node \<Rightarrow> (string list \<times> string) list"
  and files_in_entries :: "(string \<times> node) list \<Rightarrow> (string list \<times> string) list" where
  "files_in (File bytes) = [([], bytes)]"
| "files_in (Dir es) = files_in_entries es"
| "files_in_entries [] = []"
| "files_in_entries ((name, n) # es) =
     map (\<lambda>pb. (name # fst pb, snd pb)) (files_in n) @ files_in_entries es"

fun dirs_in :: "node \<Rightarrow> string list list"
  and dirs_in_entries :: "(string \<times> node) list \<Rightarrow> string list list" where
  "dirs_in (File bytes) = []"
| "dirs_in (Dir es) = [] # dirs_in_entries es"
| "dirs_in_entries [] = []"
| "dirs_in_entries ((name, n) # es) = map ((#) name) (dirs_in n) @ dirs_in_entries es"

definition visible :: "string list \<Rightarrow> bool" where
  "visible p = list_all (\<lambda>name. \<not> starts_with_dot name) p"

text \<open>
  \<open>shutil.copytree(src, dst, ignore=ignore_dot_files)\<close>: the source must be a directory
  and the destination must not exist.
\<close>

definition copytree :: "filesystem \<Rightarrow> string \<Rightarrow> string \<Rightarrow> error + filesystem" where
  "copytree fs src dst =
     (case fs src of
        None \<Rightarrow> Inl FileNotFoundError
      | Some (File bytes) \<Rightarrow> Inl NotADirectoryError
      | Some (Dir es) \<Rightarrow>
          if fs dst \<noteq> None then Inl FileExistsError
          else Inr (fs(dst \<mapsto> Dir (copy_entries es))))"

text \<open>
  \<open>os.rename(src, dst)\<close>: a rename is one step, it happens or it changes nothing. It
  fails when the source is missing, when a directory would replace a file or a
  non-empty directory, when a file would replace a directory, and, with \<open>fault\<close>, for a
  reason outside the model (permissions, another device).
\<close>

definition os_rename :: "bool \<Rightarrow> filesystem \<Rightarrow> string \<Rightarrow> string \<Rightarrow> error + filesystem" where
  "os_rename fault fs src dst =
     (if fault then Inl OSError
      else case fs src of
        None \<Rightarrow> Inl FileNotFoundError
      | Some n \<Rightarrow>
          (case (n, fs dst) of
             (Dir es, Some (File bytes)) \<Rightarrow> Inl NotADirectoryError
           | (File bytes, Some (Dir es)) \<Rightarrow> Inl IsADirectoryError
           | (Dir es, Some (Dir (e # es'))) \<Rightarrow> Inl OSError
           | _ \<Rightarrow> Inr ((fs(src := None))(dst \<mapsto> n))))"

text \<open>\<open>shutil.rmtree(path)\<close>: the path must be a directory.\<close>

definition rmtree :: "filesystem \<Rightarrow> string \<Rightarrow> error + filesystem" where
  "rmtree fs path =
     (case fs path of
        None \<Rightarrow> Inl FileNotFoundError
      | Some (File bytes) \<Rightarrow> Inl NotADirectoryError
      | Some (Dir es) \<Rightarrow> Inr (fs(path := None)))"

subsection \<open>Checkpoint staging\<close>

text \<open>
  The body of \<open>checkpoint(progress_tracker, save_path)\<close> under the context manager
  \<open>tune.checkpoint_dir\<close>, which gives \<open>checkpoint_dir\<close>; \<open>copy_id\<close> is the text of
  \<open>uuid.uuid4()\<close>. The result is the file systems that the operations of the call
  leave one after the other (none when no operation succeeds; the last one is the file
  system after the call), and the exception that leaves the function, if any.
\<close>

definition tmp_dst_name :: "string \<Rightarrow> string \<Rightarrow> string" where
  "tmp_dst_name checkpoint_model copy_id = checkpoint_model @ ''.'' @ copy_id @ ''.tmp''"

definition checkpoint ::
  "bool \<Rightarrow> string \<Rightarrow> string \<Rightarrow> string \<Rightarrow> filesystem \<Rightarrow> filesystem list \<times> error option" where
  "checkpoint rename_fault copy_id checkpoint_dir save_path fs =
     (let checkpoint_model = path_join checkpoint_dir ''model'' in
      if \<not> isdir fs checkpoint_model then
        (let tmp_dst = tmp_dst_name checkpoint_model copy_id in
         if \<not> exists_path fs save_path then ([], Some AssertionError)
         else case copytree fs save_path tmp_dst of
           Inl e \<Rightarrow> ([], Some e)
         | Inr fs1 \<Rightarrow>
             (case os_rename rename_fault fs1 tmp_dst checkpoint_model of
                Inr fs2 \<Rightarrow> ([fs1, fs2], None)
              | Inl e \<Rightarrow>
                  (case rmtree fs1 tmp_dst of
                     Inl e' \<Rightarrow> ([fs1], Some e')
                   | Inr fs3 \<Rightarrow> ([fs1, fs3], None))))
      else ([], None))"

subsection \<open>Resuming a trial\<close>

text \<open>
  \<open>safe_move_file(src, dst)\<close> of \<open>ludwig.utils.fs_utils\<close> is not part of the source
  at hand. Its outcome is a parameter: with \<open>Some (e, partial)\<close> the move raises \<open>e\<close> and
  leaves \<open>partial\<close> at the destination; with \<open>None\<close> it moves the source to the
  destination as a rename does.
\<close>

definition safe_move_file ::
  "(error \<times> node option) option \<Rightarrow> filesystem \<Rightarrow> string \<Rightarrow> string \<Rightarrow> filesystem \<times> error option" where
  "safe_move_file move_fault fs src dst =
     (case move_fault of
        Some (e, partial) \<Rightarrow> (fs(dst := partial), Some e)
      | None \<Rightarrow>
          (case os_rename False fs src dst of
             Inl e \<Rightarrow> (fs, Some e)
           | Inr fs' \<Rightarrow> (fs', None)))"

text \<open>
  The rollback in the \<open>except\<close> branch of \<open>on_trainer_train_setup\<close>, which ends by
  raising the exception \<open>e\<close> of the move again.
\<close>

definition rollback :: "error \<Rightarrow> filesystem \<Rightarrow> string \<Rightarrow> string \<Rightarrow> filesystem \<times> error option" where
  "rollback e fs save_path tmp_path =
     (case (if exists_path fs save_path then rmtree fs save_path else Inr fs) of
        Inl e' \<Rightarrow> (fs, Some e')
      | Inr fs1 \<Rightarrow>
          (case (if exists_path fs1 tmp_path then os_rename False fs1 tmp_path save_path
                 else Inr fs1) of
             Inl e' \<Rightarrow> (fs1, Some e')
           | Inr fs2 \<Rightarrow> (fs2, Some e)))"

text \<open>
  \<open>RayTuneReportCallback.on_trainer_train_setup\<close>: \<open>resuming\<close> stands for
  \<open>self.resume_ckpt_ref is not None\<close>, \<open>ckpt_path\<close> is the directory the resume
  checkpoint is materialised in. The result is the file system afterwards, the exception
  that leaves the method, if any, and whether \<open>trainer.barrier()\<close> was reached.
\<close>

definition on_trainer_train_setup ::
  "(error \<times> node option) option \<Rightarrow> bool \<Rightarrow> nat \<Rightarrow> string \<Rightarrow> string \<Rightarrow> filesystem
     \<Rightarrow> filesystem \<times> error option \<times> bool" where
  "on_trainer_train_setup move_fault resuming local_rank ckpt_path save_path fs =
     (if resuming \<and> local_rank = 0 then
        (let tmp_path = save_path @ ''.tmp'' in
         case (if exists_path fs save_path then os_rename False fs save_path tmp_path
               else Inr fs) of
           Inl e \<Rightarrow> (fs, Some e, False)
         | Inr fs1 \<Rightarrow>
             (case safe_move_file move_fault fs1 (path_join ckpt_path ''model'') save_path of
                (fs2, Some e) \<Rightarrow>
                  (case rollback e fs2 save_path tmp_path of
                     (fs3, exc) \<Rightarrow> (fs3, exc, False))
              | (fs2, None) \<Rightarrow>
                  (case (if exists_path fs2 tmp_path then rmtree fs2 tmp_path else Inr fs2) of
                     Inl e \<Rightarrow> (fs2, Some e, False)
                   | Inr fs3 \<Rightarrow> (fs3, None, True))))
      else (fs, None, True))"

subsection \<open>Result aggregator\<close>

text \<open>
  A cell of the results table in the columns \<open>parameters\<close>, \<open>training_stats\<close> and
  \<open>eval_stats\<close>: the JSON text a trial reported, the float NaN the table holds for a
  trial that reported nothing (\<open>Missing\<close>), or the empty dictionary that \<open>execute\<close> puts
  in the place of a float. The column \<open>metric_score\<close> holds a float, NaN for a trial
  that reported nothing.
\<close>

datatype cell = Missing | Text string | EmptyDict

record trial_row =
  parameters :: cell
  metric_score :: pyfloat
  training_stats :: cell
  eval_stats :: cell
  trial_id :: string
  trial_dir :: string

text \<open>
  The loop that replaces a float in the three JSON columns by \<open>{}\<close>.
\<close>

definition nan_to_empty :: "cell \<Rightarrow> cell" where
  "nan_to_empty c = (case c of Missing \<Rightarrow> EmptyDict | _ \<Rightarrow> c)"

definition catch_nans :: "trial_row \<Rightarrow> trial_row" where
  "catch_nans kwargs =
     kwargs\<lparr>parameters := nan_to_empty (parameters kwargs),
            training_stats := nan_to_empty (training_stats kwargs),
            eval_stats := nan_to_empty (eval_stats kwargs)\<rparr>"

subsection \<open>Evaluation backfill\<close>

text \<open>
  What the loop over \<open>temp_ordered_trials\<close> does besides changing a row: the warnings
  it logs and the evaluations it starts (trial path, model path).
\<close>

datatype event = Warning string | Evaluate string string

text \<open>
  What loading and evaluating the best model comes to: the JSON text of the statistics,
  the \<open>NotImplementedError\<close> of \<open>evaluate\<close> that \<open>_evaluate_best_model\<close> catches,
  or an exception that it lets through (any exception of \<open>LudwigModel.load\<close>, any
  other exception of \<open>evaluate\<close>).
\<close>

datatype eval_outcome = EvalStats string | EvalUnsupported | EvalRaises error

definition evaluate_best_model ::
  "(string \<Rightarrow> string \<Rightarrow> eval_outcome) \<Rightarrow> trial_row \<Rightarrow> string \<Rightarrow> string
     \<Rightarrow> error + trial_row \<times> event list" where
  "evaluate_best_model evaluate trial trial_path best_model_path =
     (case evaluate trial_path best_model_path of
        EvalStats stats \<Rightarrow> Inr (trial\<lparr>eval_stats := Text stats\<rparr>, [])
      | EvalUnsupported \<Rightarrow>
          Inr (trial, [Warning ''Skipping evaluation as the necessary methods are not supported''])
      | EvalRaises e \<Rightarrow> Inl e)"

text \<open>
  The body of the backfill loop of \<open>execute\<close> for one row. \<open>validation_size\<close> is \<open>None\<close>
  when no validation set was given and its size otherwise; \<open>best_model_path\<close> gives what
  the context manager \<open>_get_best_model_path\<close> yields for a trial path; \<open>evaluate\<close>
  stands for \<open>LudwigModel.load\<close> and \<open>evaluate\<close>.
\<close>

definition backfill_trial ::
  "nat option \<Rightarrow> (string \<Rightarrow> string option) \<Rightarrow> (string \<Rightarrow> string \<Rightarrow> eval_outcome)
     \<Rightarrow> trial_row \<Rightarrow> error + trial_row \<times> event list" where
  "backfill_trial validation_size best_model_path evaluate trial =
     (if eval_stats trial = Text ''{}'' \<and> training_stats trial \<noteq> Text ''{}'' then
        (if (case validation_size of None \<Rightarrow> False | Some n \<Rightarrow> n > 0) then
           (let trial_path = trial_dir trial in
            case best_model_path trial_path of
              Some path \<Rightarrow>
                (case evaluate_best_model evaluate trial trial_path path of
                   Inl e \<Rightarrow> Inl e
                 | Inr (trial', events) \<Rightarrow> Inr (trial', Evaluate trial_path path # events))
            | None \<Rightarrow>
                Inr (trial, [Warning ''Skipping evaluation as no model checkpoints were available'']))
         else Inr (trial, [Warning ''Skipping evaluation as no validation set was provided'']))
      else Inr (trial, []))"

text \<open>
  Emptiness of a statistics field in the words of the specification: the field holds the
  empty mapping, as the text \<open>{}\<close> or as the dictionary put in the place of a NaN. A row
  is uniform when its two statistics fields were reported together or were missing
  together, as the rows of a trial's last report are.
\<close>

definition stats_empty :: "cell \<Rightarrow> bool" where
  "stats_empty c = (case c of Text s \<Rightarrow> s = ''{}'' | _ \<Rightarrow> True)"

definition is_text :: "cell \<Rightarrow> bool" where
  "is_text c = (case c of Text s \<Rightarrow> True | _ \<Rightarrow> False)"

definition uniform_row :: "trial_row \<Rightarrow> bool" where
  "uniform_row trial = (is_text (training_stats trial) = is_text (eval_stats trial))"

definition selected_for_backfill :: "trial_row \<Rightarrow> bool" where
  "selected_for_backfill trial =
     (stats_empty (eval_stats trial) \<and> \<not> stats_empty (training_stats trial))"

definition validation_supplied :: "nat option \<Rightarrow> bool" where
  "validation_supplied validation_size = (\<exists>n. validation_size = Some n \<and> n > 0)"

subsection \<open>Trial runner: the steps before training\<close>

text \<open>
  The entries of \<open>hyperopt_dict\<close> that \<open>_run_experiment\<close> reads or sets before training
  starts; \<open>config\<close> is the base experiment configuration that \<open>execute\<close> put there.
\<close>

record hyperopt_dict =
  config :: pyval
  output_directory :: string

text \<open>
  The start of \<open>_run_experiment\<close>, up to the point where training is started.
  \<open>sampled\<close> is the argument \<open>config\<close> of the source, the sampled hyperparameters,
  and \<open>tdir\<close> is \<open>tune.get_trial_dir()\<close>.
  \<open>substitute_parameters\<close> of \<open>ludwig.hyperopt.utils\<close> and
  \<open>ModelConfig.from_dict(...).to_dict()\<close> are parameters; the first works on a deep
  copy of the base configuration, so the base configuration stays as it is. \<open>files\<close>
  maps a path to the JSON document written there. The result is the dictionary passed
  on to training, the decoded sampled hyperparameters, and the files.
\<close>

definition run_experiment_setup ::
  "(pyval \<Rightarrow> pyval pydict \<Rightarrow> pyval) \<Rightarrow> (pyval \<Rightarrow> error + pyval) \<Rightarrow> pyval pydict \<Rightarrow> decode_ctx
     \<Rightarrow> hyperopt_dict \<Rightarrow> string \<Rightarrow> (string \<rightharpoonup> pyval)
     \<Rightarrow> error + hyperopt_dict \<times> pyval pydict \<times> (string \<rightharpoonup> pyval)" where
  "run_experiment_setup substitute_parameters model_config sampled ctx hyperopt tdir files =
     (case decode_values sampled ctx of
        Inl e \<Rightarrow> Inl e
      | Inr decoded \<Rightarrow>
          (let sampled' = filter (\<lambda>kv. fst kv \<noteq> ''mlflow'') decoded;
               modified_config = substitute_parameters (config hyperopt) sampled';
               files' = files(path_join tdir ''trial_hyperparameters.json''
                                \<mapsto> config hyperopt)
           in case model_config modified_config of
                Inl e \<Rightarrow> Inl e
              | Inr modified_config' \<Rightarrow>
                  Inr (hyperopt\<lparr>config := modified_config', output_directory := tdir\<rparr>,
                       sampled', files')))"

subsection \<open>Attributes of the executor\<close>

text \<open>
  An instance of \<open>RayTuneExecutor\<close> as its attribute dictionary. \<open>__init__\<close> assigns the
  attributes below, in this order; \<open>val\<close> gives the value each assignment stores (an
  argument, or the result of a call such as \<open>_get_search_space\<close>).
\<close>

type_synonym attributes = "pyval pydict"

definition setattr :: "attributes \<Rightarrow> string \<Rightarrow> pyval \<Rightarrow> attributes" where
  "setattr self name v = AList.update name v self"

definition init_assignments :: "string list" where
  "init_assignments =
     [''output_feature'', ''metric'', ''split'', ''search_space'', ''decode_ctx'',
      ''num_samples'', ''goal'', ''search_algorithm'', ''scheduler'', ''output_feature'',
      ''metric'', ''split'', ''trial_id'', ''cpu_resources_per_trial'',
      ''gpu_resources_per_trial'', ''kubernetes_namespace'', ''time_budget_s'',
      ''max_concurrent_trials'', ''sync_config'', ''sync_client'', ''head_node_ip'']"

definition executor_init :: "(string \<Rightarrow> pyval) \<Rightarrow> attributes" where
  "executor_init val = fold (\<lambda>name self. setattr self name (val name)) init_assignments []"

text \<open>
  The only other assignments to attributes of \<open>self\<close> in the class are those of
  \<open>execute\<close>, to \<open>sync_client\<close> and \<open>sync_config\<close>.
\<close>

definition execute_assignments :: "pyval \<times> pyval \<Rightarrow> attributes \<Rightarrow> attributes" where
  "execute_assignments sync self =
     setattr (setattr self ''sync_client'' (fst sync)) ''sync_config'' (snd sync)"

text \<open>The methods and properties that the class body defines.\<close>

definition class_members :: "string list" where
  "class_members =
     [''__init__'', ''_get_search_space'', ''encode_values'', ''decode_values'', ''_has_metric'',
      ''_has_eval_metric'', ''get_metric_score'', ''get_metric_score_from_eval_stats'',
      ''get_metric_score_from_train_stats'', ''sort_hyperopt_results'',
      ''_cpu_resources_per_trial_non_none'', ''_gpu_resources_per_trial_non_none'',
      ''_get_remote_checkpoint_dir'', ''_get_kubernetes_node_address_by_ip'',
      ''_remove_partial_checkpoints'', ''_get_best_model_path'', ''_evaluate_best_model'',
      ''_run_experiment'', ''execute'']"

text \<open>
  \<open>self.name\<close>: the instance dictionary first, then the class; \<open>AttributeError\<close> when
  neither has the name.
\<close>

datatype attribute = Stored pyval | Member string

definition getattr :: "attributes \<Rightarrow> string \<Rightarrow> error + attribute" where
  "getattr self name =
     (case map_of self name of
        Some v \<Rightarrow> Inr (Stored v)
      | None \<Rightarrow> if name \<in> set class_members then Inr (Member name) else Inl AttributeError)"

text \<open>
  \<open>sorted(xs, key=..., reverse=...)\<close> compares keys with \<open><\<close> only and is stable: an
  item goes behind the items already placed that it is not less than. With \<open>reverse\<close>
  the list is reversed, sorted and reversed again.
\<close>

fun py_insert :: "('a \<Rightarrow> pyfloat) \<Rightarrow> 'a \<Rightarrow> 'a list \<Rightarrow> 'a list" where
  "py_insert key x [] = [x]"
| "py_insert key x (y # ys) =
     (if py_lt (key x) (key y) then x # y # ys else y # py_insert key x ys)"

definition py_sorted :: "('a \<Rightarrow> pyfloat) \<Rightarrow> bool \<Rightarrow> 'a list \<Rightarrow> 'a list" where
  "py_sorted key reverse xs =
     (let sort = (\<lambda>ys. foldl (\<lambda>placed x. py_insert key x placed) [] ys)
      in if reverse then rev (sort (rev xs)) else sort xs)"

text \<open>
  \<open>sort_hyperopt_results(hyperopt_results)\<close>. The argument \<open>reverse\<close> is evaluated
  before \<open>sorted\<close> is called: \<open>self.hyperopt_sampler\<close>, then its attribute \<open>goal\<close> (an
  object is given by the dictionary of its attributes).
\<close>

definition sort_hyperopt_results :: "attributes \<Rightarrow> trial_row list \<Rightarrow> error + trial_row list" where
  "sort_hyperopt_results self hyperopt_results =
     (case getattr self ''hyperopt_sampler'' of
        Inl e \<Rightarrow> Inl e
      | Inr (Stored (PyDict sampler)) \<Rightarrow>
          (case map_of sampler ''goal'' of
             None \<Rightarrow> Inl AttributeError
           | Some g \<Rightarrow> Inr (py_sorted metric_score (g = PyStr MAXIMIZE) hyperopt_results))
      | Inr other \<Rightarrow> Inl AttributeError)"

section \<open>Properties\<close>

subsection \<open>Metric extractor\<close>

lemma has_metric_present:
  "has_metric ex stats split = (present_values ex stats split \<noteq> None)"
  by (cases stats) (auto simp: has_metric_def present_values_def split: option.splits)

lemma py_best_from_value:
  "snd (py_best_from bf cur ps)
     = foldl (\<lambda>c v. if better bf v c then v else c) (snd cur) (map snd ps)"
  by (induction ps arbitrary: cur) simp_all

lemma map_snd_enumerate: "map snd (enumerate n vs) = vs"
  by (induction vs arbitrary: n) simp_all

lemma py_best_enumerate:
  "vs \<noteq> [] \<Longrightarrow> \<exists>i. py_best bf (enumerate n vs) = Inr (i, first_best bf vs)"
proof (cases vs)
  case Nil
  assume "vs \<noteq> []"
  with Nil show ?thesis by simp
next
  case (Cons v rest)
  have "snd (py_best_from bf (n, v) (enumerate (Suc n) rest)) = first_best bf (v # rest)"
    using py_best_from_value [of bf "(n, v)" "enumerate (Suc n) rest"]
    by (simp add: map_snd_enumerate first_best_def)
  then show ?thesis
    using Cons by (simp add: py_best_def) (metis prod.collapse)
qed


lemma from_train_stats_present:
  assumes "present_values ex stats (or_validation select_split) = Some vs"
  shows "get_metric_score_from_train_stats gbf ex stats select_split
           = Inr (first_best (gbf (metric ex)) vs)"
proof -
  from assms(1) obtain fs ms where
    fs: "map_of stats (or_validation select_split) = Some fs" and
    ms: "map_of fs (output_feature ex) = Some ms" and
    vs: "map_of ms (metric ex) = Some vs" and ne: "vs \<noteq> []"
    by (auto simp: present_values_def split: option.splits if_splits)
  from ne obtain i where
    "py_best (gbf (metric ex)) (enumerate 0 vs) = Inr (i, first_best (gbf (metric ex)) vs)"
    using py_best_enumerate by blast
  then show ?thesis
    using fs ms vs
    by (simp add: get_metric_score_from_train_stats_def)
qed

lemma or_validation_Some [simp]:
  "or_validation (Some VALIDATION) = VALIDATION" "or_validation (Some TRAINING) = TRAINING"
  by (simp_all add: or_validation_def VALIDATION_def TRAINING_def)







text \<open>
  C1. \<open>get_metric_score\<close> returns the score of the validation split when that split is
  present (split key, feature key under it, metric key under the feature, non-empty
  list); otherwise the score of the training split under the same test; and it raises
  \<open>RuntimeError\<close> when neither split is present. The score of a split is the value that
  the metric's best function selects from its list.
\<close>

theorem get_metric_score_prefers_validation:
  "get_metric_score gbf ex stats =
     (case present_values ex stats VALIDATION of
        Some vs \<Rightarrow> Inr (first_best (gbf (metric ex)) vs)
      | None \<Rightarrow>
          (case present_values ex stats TRAINING of
             Some vs \<Rightarrow> Inr (first_best (gbf (metric ex)) vs)
           | None \<Rightarrow> Inl RuntimeError))"
proof (cases "present_values ex stats VALIDATION")
  case (Some vs)
  then show ?thesis
    using from_train_stats_present [of ex stats "Some VALIDATION" vs gbf]
    by (simp add: get_metric_score_def has_metric_present)
next
  case None
  show ?thesis
  proof (cases "present_values ex stats TRAINING")
    case (Some vs)
    then show ?thesis
      using None from_train_stats_present [of ex stats "Some TRAINING" vs gbf]
      by (simp add: get_metric_score_def has_metric_present)
  next
    case None2: None
    then show ?thesis
      using None by (simp add: get_metric_score_def has_metric_present)
  qed
qed




subsection \<open>Evaluation statistics\<close>

lemma walk_metric_lookup:
  "walk_metric st parts = (case lookup_path st parts of None \<Rightarrow> Inl ValueError | Some v \<Rightarrow> Inr v)"
  by (induction st parts rule: walk_metric.induct) (simp_all split: option.splits)

lemma split_dot_nonempty: "split_dot s \<noteq> []"
  by (induction s) (auto split: list.splits)

lemma join_split_dot: "join_dot (split_dot s) = s"
proof (induction s)
  case Nil
  show ?case by simp
next
  case (Cons c cs)
  obtain w ws where sp: "split_dot cs = w # ws"
    using split_dot_nonempty [of cs] by (cases "split_dot cs") auto
  with Cons show ?case by (cases ws) auto
qed

lemma split_dot_pieces: "\<forall>w \<in> set (split_dot s). CHR ''.'' \<notin> set w"
  by (induction s) (auto split: list.splits)

text \<open>
  C9, as amended. \<open>get_metric_score_from_eval_stats\<close> splits the metric name at its
  dots (the segments hold no dot and, joined with dots, give the name back) and walks
  the segments through the nested mappings under the output-feature key. It returns
  the terminal value when that value is a float. It raises \<open>ValueError\<close> when a segment
  is absent or an intermediate value is not a mapping, and when the terminal value is
  not a float: for a string, a list or a mapping, and for an integer or a boolean as
  well. A missing output-feature key raises \<open>KeyError\<close>.
\<close>

theorem eval_stats_path_walk:
  "get_metric_score_from_eval_stats ex (PyDict es) =
     (case map_of es (output_feature ex) of
        None \<Rightarrow> Inl KeyError
      | Some st \<Rightarrow>
          (case lookup_path st (split_dot (metric ex)) of
             None \<Rightarrow> Inl ValueError
           | Some (PyFloat x) \<Rightarrow> Inr x
           | Some v \<Rightarrow> Inl ValueError))
   \<and> join_dot (split_dot (metric ex)) = metric ex
   \<and> split_dot (metric ex) \<noteq> []
   \<and> (\<forall>w \<in> set (split_dot (metric ex)). CHR ''.'' \<notin> set w)"
  by (simp add: get_metric_score_from_eval_stats_def walk_metric_lookup join_split_dot
      split_dot_nonempty split_dot_pieces split: option.splits pyval.splits)

theorem eval_stats_path_walk_witness:
  "split_dot ''overall_stats.avg_f1'' = [''overall_stats'', ''avg_f1'']
   \<and> get_metric_score_from_eval_stats
       \<lparr>output_feature = ''label'', metric = ''overall_stats.avg_f1'', goal = ''maximize''\<rparr>
       (PyDict [(''combined'', PyDict [(''loss'', PyFloat (Fin 0.3))]),
                (''label'', PyDict [(''loss'', PyFloat (Fin 0.2)),
                   (''overall_stats'', PyDict [(''avg_f1'', PyFloat (Fin 0.5))])])])
     = Inr (Fin 0.5)
   \<and> get_metric_score_from_eval_stats
       \<lparr>output_feature = ''label'', metric = ''overall_stats.kappa'', goal = ''maximize''\<rparr>
       (PyDict [(''label'', PyDict [(''loss'', PyFloat (Fin 0.2)),
                   (''overall_stats'', PyDict [(''avg_f1'', PyFloat (Fin 0.5))])])])
     = Inl ValueError
   \<and> get_metric_score_from_eval_stats
       \<lparr>output_feature = ''label'', metric = ''loss.value'', goal = ''minimize''\<rparr>
       (PyDict [(''label'', PyDict [(''loss'', PyFloat (Fin 0.2))])])
     = Inl ValueError
   \<and> get_metric_score_from_eval_stats
       \<lparr>output_feature = ''label'', metric = ''overall_stats'', goal = ''maximize''\<rparr>
       (PyDict [(''label'', PyDict [(''overall_stats'', PyDict [(''avg_f1'', PyFloat (Fin 0.5))])])])
     = Inl ValueError
   \<and> get_metric_score_from_eval_stats
       \<lparr>output_feature = ''label'', metric = ''loss'', goal = ''minimize''\<rparr>
       (PyDict [(''combined'', PyDict [(''loss'', PyFloat (Fin 0.3))])])
     = Inl KeyError"
proof -
  have sp: "split_dot ''overall_stats.avg_f1'' = [''overall_stats'', ''avg_f1'']"
    "split_dot ''overall_stats.kappa'' = [''overall_stats'', ''kappa'']"
    "split_dot ''loss.value'' = [''loss'', ''value'']"
    "split_dot ''overall_stats'' = [''overall_stats'']"
    "split_dot ''loss'' = [''loss'']"
    by simp_all
  show ?thesis
    using
      eval_stats_path_walk [of
        "\<lparr>output_feature = ''label'', metric = ''overall_stats.avg_f1'', goal = ''maximize''\<rparr>"
        "[(''combined'', PyDict [(''loss'', PyFloat (Fin 0.3))]),
          (''label'', PyDict [(''loss'', PyFloat (Fin 0.2)),
             (''overall_stats'', PyDict [(''avg_f1'', PyFloat (Fin 0.5))])])]"]
      eval_stats_path_walk [of
        "\<lparr>output_feature = ''label'', metric = ''overall_stats.kappa'', goal = ''maximize''\<rparr>"
        "[(''label'', PyDict [(''loss'', PyFloat (Fin 0.2)),
             (''overall_stats'', PyDict [(''avg_f1'', PyFloat (Fin 0.5))])])]"]
      eval_stats_path_walk [of
        "\<lparr>output_feature = ''label'', metric = ''loss.value'', goal = ''minimize''\<rparr>"
        "[(''label'', PyDict [(''loss'', PyFloat (Fin 0.2))])]"]
      eval_stats_path_walk [of
        "\<lparr>output_feature = ''label'', metric = ''overall_stats'', goal = ''maximize''\<rparr>"
        "[(''label'', PyDict [(''overall_stats'', PyDict [(''avg_f1'', PyFloat (Fin 0.5))])])]"]
      eval_stats_path_walk [of
        "\<lparr>output_feature = ''label'', metric = ''loss'', goal = ''minimize''\<rparr>"
        "[(''combined'', PyDict [(''loss'', PyFloat (Fin 0.3))])]"]
    by (simp add: sp)
qed

text \<open>
  C9, as stated, lets a numeric terminal value through. The test of the source is
  \<open>isinstance(stats, float)\<close>: for the statistics \<open>{"label": {"accuracy": 1}}\<close>, whose
  terminal value is the integer 1, the function raises \<open>ValueError\<close>.
\<close>

theorem eval_stats_integer_counterexample:
  "get_metric_score_from_eval_stats
     \<lparr>output_feature = ''label'', metric = ''accuracy'', goal = ''maximize''\<rparr>
     (PyDict [(''label'', PyDict [(''accuracy'', PyInt 1)])])
   = Inl ValueError"
  by (simp add: get_metric_score_from_eval_stats_def)

subsection \<open>Search-space codec\<close>










subsection \<open>Checkpoint staging\<close>

lemma visible_Cons: "visible (name # p) = (\<not> starts_with_dot name \<and> visible p)"
  by (simp add: visible_def)

lemma files_in_copy:
  "files_in (copy_node n) = filter (\<lambda>pb. visible (fst pb)) (files_in n)"
  "files_in_entries (copy_entries es) = filter (\<lambda>pb. visible (fst pb)) (files_in_entries es)"
proof (induction n and es rule: copy_node_copy_entries.induct)
  case (1 bytes)
  show ?case by (simp add: visible_def)
next
  case (2 es)
  then show ?case by simp
next
  case 3
  show ?case by simp
next
  case (4 name n es)
  then show ?case
    by (simp add: filter_map o_def visible_Cons split_def)
qed

lemma dirs_in_copy:
  "dirs_in (copy_node n) = filter visible (dirs_in n)"
  "dirs_in_entries (copy_entries es) = filter visible (dirs_in_entries es)"
proof (induction n and es rule: copy_node_copy_entries.induct)
  case (1 bytes)
  show ?case by simp
next
  case (2 es)
  then show ?case by (simp add: visible_def)
next
  case 3
  show ?case by simp
next
  case (4 name n es)
  then show ?case
    by (simp add: filter_map o_def visible_Cons)
qed

text \<open>
  C6. With the model directory at \<open>save_path\<close>, no directory under the final name and
  the temporary name \<open>final.copy_id.tmp\<close> free, \<open>checkpoint\<close> first puts a copy of the
  model directory under the temporary name, which differs from the final name, and
  nothing else changes. The copy holds the files and directories of the model
  directory, at every depth, whose path has no segment that starts with a dot, and no
  others. Then the copy is renamed. If the rename succeeds, the final name holds the
  copy and the temporary name is gone. If the rename fails (by a fault, or because the
  final name is taken by a file), the temporary copy is removed: the file system is as
  it was before the call, and no exception leaves the function.
\<close>

theorem checkpoint_staging:
  assumes src: "fs save_path = Some (Dir es)"
    and final: "final = path_join checkpoint_dir ''model''"
    and tmp: "tmp = final @ ''.'' @ copy_id @ ''.tmp''"
    and nodir: "\<not> isdir fs final"
    and fresh: "fs tmp = None"
  shows "(\<not> rename_fault \<and> fs final = None \<longrightarrow>
            checkpoint rename_fault copy_id checkpoint_dir save_path fs
              = ([fs(tmp \<mapsto> Dir (copy_entries es)), fs(final \<mapsto> Dir (copy_entries es))], None))
         \<and> (rename_fault \<or> fs final \<noteq> None \<longrightarrow>
              checkpoint rename_fault copy_id checkpoint_dir save_path fs
                = ([fs(tmp \<mapsto> Dir (copy_entries es)), fs], None))
         \<and> tmp \<noteq> final
         \<and> files_in_entries (copy_entries es)
             = filter (\<lambda>pb. visible (fst pb)) (files_in_entries es)
         \<and> dirs_in_entries (copy_entries es) = filter visible (dirs_in_entries es)"
proof -
  let ?copy = "Dir (copy_entries es)"
  let ?fs1 = "fs(tmp \<mapsto> ?copy)"
  have neq: "tmp \<noteq> final" using tmp by simp
  have tmp': "tmp = tmp_dst_name final copy_id" using tmp by (simp add: tmp_dst_name_def)
  have copied: "copytree fs save_path tmp = Inr ?fs1"
    using src fresh by (simp add: copytree_def)
  have rm: "rmtree ?fs1 tmp = Inr fs"
  proof -
    have "?fs1(tmp := None) = fs" using fresh by (auto simp: fun_eq_iff)
    then show ?thesis by (simp add: rmtree_def)
  qed
  have renamed: "os_rename rename_fault ?fs1 tmp final = Inr (fs(final \<mapsto> ?copy))"
    if "\<not> rename_fault" and free: "fs final = None"
  proof -
    have "(?fs1(tmp := None))(final \<mapsto> ?copy) = fs(final \<mapsto> ?copy)"
      using fresh by (auto simp: fun_eq_iff)
    then show ?thesis using that neq by (simp add: os_rename_def)
  qed
  have refused: "\<exists>e. os_rename rename_fault ?fs1 tmp final = Inl e"
    if "rename_fault \<or> fs final \<noteq> None"
  proof (cases rename_fault)
    case True
    then show ?thesis by (simp add: os_rename_def)
  next
    case False
    with that obtain n where n: "fs final = Some n" by auto
    with nodir obtain bytes where "n = File bytes"
      by (cases n) (auto simp: isdir_def)
    with n False neq show ?thesis by (simp add: os_rename_def)
  qed
  have ok: "checkpoint rename_fault copy_id checkpoint_dir save_path fs
              = ([?fs1, fs(final \<mapsto> ?copy)], None)"
    if "\<not> rename_fault" and "fs final = None"
    using renamed [OF that] copied src nodir
    by (simp add: checkpoint_def final [symmetric] tmp' [symmetric] exists_path_def)
  have failed: "checkpoint rename_fault copy_id checkpoint_dir save_path fs = ([?fs1, fs], None)"
    if "rename_fault \<or> fs final \<noteq> None"
  proof -
    from refused [OF that] obtain e where "os_rename rename_fault ?fs1 tmp final = Inl e" ..
    then show ?thesis
      using copied rm src nodir
      by (simp add: checkpoint_def final [symmetric] tmp' [symmetric] exists_path_def)
  qed
  show ?thesis
    using ok failed neq files_in_copy(2) dirs_in_copy(2) by blast
qed

theorem checkpoint_staging_witness:
  "checkpoint False ''7f'' ''/t/checkpoint_1'' ''/t/model''
       [''/t/model'' \<mapsto> Dir [(''.lock'', File ''x''), (''weights'', File ''w''),
          (''logs'', Dir [(''.hidden'', File ''h''), (''run'', File ''r''),
             (''.cache'', Dir [(''c'', File ''c'')])]),
          (''empty'', Dir [])]]
     = ([[''/t/model'' \<mapsto> Dir [(''.lock'', File ''x''), (''weights'', File ''w''),
            (''logs'', Dir [(''.hidden'', File ''h''), (''run'', File ''r''),
               (''.cache'', Dir [(''c'', File ''c'')])]),
            (''empty'', Dir [])],
          ''/t/checkpoint_1/model.7f.tmp'' \<mapsto>
            Dir [(''weights'', File ''w''), (''logs'', Dir [(''run'', File ''r'')]),
                 (''empty'', Dir [])]],
         [''/t/model'' \<mapsto> Dir [(''.lock'', File ''x''), (''weights'', File ''w''),
            (''logs'', Dir [(''.hidden'', File ''h''), (''run'', File ''r''),
               (''.cache'', Dir [(''c'', File ''c'')])]),
            (''empty'', Dir [])],
          ''/t/checkpoint_1/model'' \<mapsto>
            Dir [(''weights'', File ''w''), (''logs'', Dir [(''run'', File ''r'')]),
                 (''empty'', Dir [])]]], None)
   \<and> checkpoint True ''7f'' ''/t/checkpoint_1'' ''/t/model''
       [''/t/model'' \<mapsto> Dir [(''.lock'', File ''x''), (''weights'', File ''w''),
          (''logs'', Dir [(''.hidden'', File ''h''), (''run'', File ''r''),
             (''.cache'', Dir [(''c'', File ''c'')])]),
          (''empty'', Dir [])]]
     = ([[''/t/model'' \<mapsto> Dir [(''.lock'', File ''x''), (''weights'', File ''w''),
            (''logs'', Dir [(''.hidden'', File ''h''), (''run'', File ''r''),
               (''.cache'', Dir [(''c'', File ''c'')])]),
            (''empty'', Dir [])],
          ''/t/checkpoint_1/model.7f.tmp'' \<mapsto>
            Dir [(''weights'', File ''w''), (''logs'', Dir [(''run'', File ''r'')]),
                 (''empty'', Dir [])]],
         [''/t/model'' \<mapsto> Dir [(''.lock'', File ''x''), (''weights'', File ''w''),
            (''logs'', Dir [(''.hidden'', File ''h''), (''run'', File ''r''),
               (''.cache'', Dir [(''c'', File ''c'')])]),
            (''empty'', Dir [])]]], None)
   \<and> files_in_entries [(''weights'', File ''w''), (''logs'', Dir [(''run'', File ''r'')]),
        (''empty'', Dir [])]
     = [([''weights''], ''w''), ([''logs'', ''run''], ''r'')]
   \<and> dirs_in_entries [(''weights'', File ''w''), (''logs'', Dir [(''run'', File ''r'')]),
        (''empty'', Dir [])]
     = [[''logs''], [''empty'']]"
proof -
  let ?es = "[(''.lock'', File ''x''), (''weights'', File ''w''),
              (''logs'', Dir [(''.hidden'', File ''h''), (''run'', File ''r''),
                 (''.cache'', Dir [(''c'', File ''c'')])]),
              (''empty'', Dir [])]"
  let ?fs = "[''/t/model'' \<mapsto> Dir ?es]"
  have src: "?fs ''/t/model'' = Some (Dir ?es)" by simp
  have final: "''/t/checkpoint_1/model'' = path_join ''/t/checkpoint_1'' ''model''"
    by (simp add: path_join_def)
  have tmp: "''/t/checkpoint_1/model.7f.tmp'' = ''/t/checkpoint_1/model'' @ ''.'' @ ''7f'' @ ''.tmp''"
    by simp
  have nodir: "\<not> isdir ?fs ''/t/checkpoint_1/model''" by (simp add: isdir_def)
  have fresh: "?fs ''/t/checkpoint_1/model.7f.tmp'' = None" by simp
  have free: "?fs ''/t/checkpoint_1/model'' = None" by simp
  have copy: "copy_entries ?es
    = [(''weights'', File ''w''), (''logs'', Dir [(''run'', File ''r'')]), (''empty'', Dir [])]"
    by (simp add: starts_with_dot_def)
  note a = checkpoint_staging [OF src final tmp nodir fresh, of False]
  note b = checkpoint_staging [OF src final tmp nodir fresh, of True]
  from a free have 1: "checkpoint False ''7f'' ''/t/checkpoint_1'' ''/t/model'' ?fs
     = ([?fs(''/t/checkpoint_1/model.7f.tmp'' \<mapsto> Dir (copy_entries ?es)),
         ?fs(''/t/checkpoint_1/model'' \<mapsto> Dir (copy_entries ?es))], None)"
    by blast
  from b have 2: "checkpoint True ''7f'' ''/t/checkpoint_1'' ''/t/model'' ?fs
     = ([?fs(''/t/checkpoint_1/model.7f.tmp'' \<mapsto> Dir (copy_entries ?es)), ?fs], None)"
    by blast
  from a have 3: "files_in_entries (copy_entries ?es)
      = filter (\<lambda>pb. visible (fst pb)) (files_in_entries ?es)"
    and 4: "dirs_in_entries (copy_entries ?es) = filter visible (dirs_in_entries ?es)"
    by blast+
  have 5: "filter (\<lambda>pb. visible (fst pb)) (files_in_entries ?es)
      = [([''weights''], ''w''), ([''logs'', ''run''], ''r'')]"
    by (simp add: visible_def starts_with_dot_def)
  have 6: "filter visible (dirs_in_entries ?es) = [[''logs''], [''empty'']]"
    by (simp add: visible_def starts_with_dot_def)
  from 1 2 3 4 5 6 show ?thesis unfolding copy by simp
qed

subsection \<open>Resuming a trial\<close>

lemma os_rename_to_free:
  "fs src = Some n \<Longrightarrow> fs dst = None
     \<Longrightarrow> os_rename False fs src dst = Inr ((fs(src := None))(dst \<mapsto> n))"
  by (cases n) (simp_all add: os_rename_def)

lemma rollback_restores:
  assumes partial: "partial = None \<or> (\<exists>ps. partial = Some (Dir ps))"
    and gone: "fs1 save_path = None"
  shows "rollback e (fs1(save_path := partial)) save_path tmp_path
           = (case (if exists_path fs1 tmp_path then os_rename False fs1 tmp_path save_path
                    else Inr fs1) of
                Inl e' \<Rightarrow> (fs1, Some e')
              | Inr fs2 \<Rightarrow> (fs2, Some e))"
proof -
  have undo: "(fs1(save_path := partial))(save_path := None) = fs1"
    using gone by (auto simp: fun_eq_iff)
  have same: "partial = None \<Longrightarrow> fs1(save_path := partial) = fs1"
    using gone by (auto simp: fun_eq_iff)
  from partial show ?thesis
  proof
    assume "partial = None"
    then show ?thesis using same gone by (simp add: rollback_def exists_path_def)
  next
    assume "\<exists>ps. partial = Some (Dir ps)"
    then show ?thesis using undo by (auto simp: rollback_def exists_path_def rmtree_def)
  qed
qed

text \<open>
  C7. On the resuming worker of local rank 0, with the save path empty or a directory
  and no stale backup at \<open>save_path.tmp\<close>: if the move of the checkpoint fails, leaving
  nothing or a partial directory at the save path, the method removes what the move
  left, puts the backed-up contents back, so that the file system is what it was before
  the call, and raises the exception of the move again, without reaching the barrier.
  If the move succeeds, the save path holds the moved checkpoint, the backup is removed
  and the barrier is reached.
\<close>

theorem resume_move_rollback:
  assumes prev: "fs save_path = None \<or> (\<exists>es. fs save_path = Some (Dir es))"
    and nostale: "fs (save_path @ ''.tmp'') = None"
  shows "(\<forall>e partial. partial = None \<or> (\<exists>ps. partial = Some (Dir ps)) \<longrightarrow>
            on_trainer_train_setup (Some (e, partial)) True 0 ckpt_path save_path fs
              = (fs, Some e, False))
         \<and> (\<forall>model fs' exc barrier.
              fs (path_join ckpt_path ''model'') = Some model
              \<and> path_join ckpt_path ''model'' \<noteq> save_path
              \<and> path_join ckpt_path ''model'' \<noteq> save_path @ ''.tmp''
              \<and> on_trainer_train_setup None True 0 ckpt_path save_path fs = (fs', exc, barrier)
              \<longrightarrow> exc = None \<and> barrier \<and> fs' save_path = Some model
                  \<and> fs' (save_path @ ''.tmp'') = None
                  \<and> fs' (path_join ckpt_path ''model'') = None)"
proof -
  let ?tmp = "save_path @ ''.tmp''"
  let ?src = "path_join ckpt_path ''model''"
  have fail: "on_trainer_train_setup (Some (e, partial)) True 0 ckpt_path save_path fs
                = (fs, Some e, False)"
    if partial: "partial = None \<or> (\<exists>ps. partial = Some (Dir ps))" for e partial
    using prev
  proof
    assume none: "fs save_path = None"
    show ?thesis
      using rollback_restores [where ?fs1.0 = fs and save_path = save_path, OF partial none, of e ?tmp] none nostale
      by (simp add: on_trainer_train_setup_def exists_path_def safe_move_file_def)
  next
    assume "\<exists>es. fs save_path = Some (Dir es)"
    then obtain es where es: "fs save_path = Some (Dir es)" by blast
    let ?fs1 = "(fs(save_path := None))(?tmp \<mapsto> Dir es)"
    have backup: "os_rename False fs save_path ?tmp = Inr ?fs1"
      using es nostale by (simp add: os_rename_def)
    have gone: "?fs1 save_path = None" by simp
    have restore: "os_rename False ?fs1 ?tmp save_path = Inr fs"
    proof -
      have "(?fs1(?tmp := None))(save_path \<mapsto> Dir es) = fs"
        using es nostale by (auto simp: fun_eq_iff)
      then show ?thesis by (simp add: os_rename_def)
    qed
    show ?thesis
      using rollback_restores [where ?fs1.0 = ?fs1 and save_path = save_path, OF partial gone, of e ?tmp] backup restore es
      by (simp add: on_trainer_train_setup_def exists_path_def safe_move_file_def)
  qed
  have ok: "exc = None \<and> barrier \<and> fs' save_path = Some model \<and> fs' ?tmp = None
              \<and> fs' ?src = None"
    if src: "fs ?src = Some model" and n1: "?src \<noteq> save_path" and n2: "?src \<noteq> ?tmp"
      and run: "on_trainer_train_setup None True 0 ckpt_path save_path fs = (fs', exc, barrier)"
    for model fs' exc barrier
    using prev
  proof
    assume none: "fs save_path = None"
    have mv: "os_rename False fs ?src save_path = Inr ((fs(?src := None))(save_path \<mapsto> model))"
      using src none by (simp add: os_rename_to_free)
    show ?thesis
      using run mv none nostale n1 n2
      by (auto simp: on_trainer_train_setup_def exists_path_def safe_move_file_def)
  next
    assume "\<exists>es. fs save_path = Some (Dir es)"
    then obtain es where es: "fs save_path = Some (Dir es)" by blast
    let ?fs1 = "(fs(save_path := None))(?tmp \<mapsto> Dir es)"
    have backup: "os_rename False fs save_path ?tmp = Inr ?fs1"
      using es nostale by (simp add: os_rename_def)
    have mv: "os_rename False ?fs1 ?src save_path = Inr ((?fs1(?src := None))(save_path \<mapsto> model))"
      using src n1 n2 by (simp add: os_rename_to_free)
    show ?thesis
      using run backup mv es n1 n2
      by (auto simp: on_trainer_train_setup_def exists_path_def safe_move_file_def rmtree_def)
  qed
  show ?thesis using fail ok by blast
qed

theorem resume_move_rollback_witness:
  "on_trainer_train_setup (Some (OSError, Some (Dir [(''weights'', File '''')]))) True 0
       ''/ckpt'' ''/run/model''
       [''/run/model'' \<mapsto> Dir [(''weights'', File ''old'')],
        ''/ckpt/model'' \<mapsto> Dir [(''weights'', File ''new'')]]
     = ([''/run/model'' \<mapsto> Dir [(''weights'', File ''old'')],
         ''/ckpt/model'' \<mapsto> Dir [(''weights'', File ''new'')]], Some OSError, False)
   \<and> (case on_trainer_train_setup None True 0 ''/ckpt'' ''/run/model''
         [''/run/model'' \<mapsto> Dir [(''weights'', File ''old'')],
          ''/ckpt/model'' \<mapsto> Dir [(''weights'', File ''new'')]] of
        (fs', exc, barrier) \<Rightarrow>
          exc = None \<and> barrier \<and> fs' ''/run/model'' = Some (Dir [(''weights'', File ''new'')])
          \<and> fs' ''/run/model.tmp'' = None)"
proof -
  let ?fs = "[''/run/model'' \<mapsto> Dir [(''weights'', File ''old'')],
              ''/ckpt/model'' \<mapsto> Dir [(''weights'', File ''new'')]]"
  have prev: "?fs ''/run/model'' = None \<or> (\<exists>es. ?fs ''/run/model'' = Some (Dir es))"
    by simp
  have nostale: "?fs (''/run/model'' @ ''.tmp'') = None" by simp
  note r = resume_move_rollback [where fs = ?fs and save_path = "''/run/model''"
      and ckpt_path = "''/ckpt''", OF prev nostale]
  have pj: "path_join ''/ckpt'' ''model'' = ''/ckpt/model''" by (simp add: path_join_def)
  from r have a: "on_trainer_train_setup (Some (OSError, Some (Dir [(''weights'', File '''')])))
       True 0 ''/ckpt'' ''/run/model'' ?fs = (?fs, Some OSError, False)"
    by blast
  obtain fs' exc barrier where
    run: "on_trainer_train_setup None True 0 ''/ckpt'' ''/run/model'' ?fs = (fs', exc, barrier)"
    by (cases "on_trainer_train_setup None True 0 ''/ckpt'' ''/run/model'' ?fs") blast
  have src: "?fs (path_join ''/ckpt'' ''model'') = Some (Dir [(''weights'', File ''new'')])"
    by (simp add: pj)
  have n1: "path_join ''/ckpt'' ''model'' \<noteq> ''/run/model''" by (simp add: pj)
  have n2: "path_join ''/ckpt'' ''model'' \<noteq> ''/run/model'' @ ''.tmp''" by (simp add: pj)
  from r src n1 n2 run
  have "exc = None \<and> barrier \<and> fs' ''/run/model'' = Some (Dir [(''weights'', File ''new'')])
          \<and> fs' (''/run/model'' @ ''.tmp'') = None"
    by blast
  with a run show ?thesis by simp
qed

subsection \<open>Evaluation backfill\<close>

lemma selected_iff_test:
  "uniform_row trial \<Longrightarrow>
     selected_for_backfill trial
       = (eval_stats trial = Text ''{}'' \<and> training_stats trial \<noteq> Text ''{}'')"
  by (cases "eval_stats trial"; cases "training_stats trial")
     (auto simp: uniform_row_def selected_for_backfill_def stats_empty_def is_text_def)

text \<open>
  C5. For a row whose statistics fields were reported together or were missing together:
  the row is taken for backfill exactly when its \<open>eval_stats\<close> are empty and its
  \<open>training_stats\<close> are not. A row that is not taken is left as it is, with no
  evaluation and no warning. For a row that is taken, the evaluation is started exactly
  when a non-empty validation set was supplied and a best model path was resolved; it
  then fills in \<open>eval_stats\<close>, or logs a warning and leaves the row when the evaluation
  is not supported, or lets another exception through. In every other case of a taken
  row one warning is logged and the row, with its empty \<open>eval_stats\<close>, is left as it is.
\<close>

theorem backfill_selection:
  assumes "uniform_row trial"
  shows "(\<not> selected_for_backfill trial \<longrightarrow>
            backfill_trial validation_size best_model_path evaluate trial = Inr (trial, []))
         \<and> (selected_for_backfill trial \<and> validation_supplied validation_size \<longrightarrow>
              (\<forall>path. best_model_path (trial_dir trial) = Some path \<longrightarrow>
                 backfill_trial validation_size best_model_path evaluate trial =
                   (case evaluate (trial_dir trial) path of
                      EvalStats stats \<Rightarrow>
                        Inr (trial\<lparr>eval_stats := Text stats\<rparr>, [Evaluate (trial_dir trial) path])
                    | EvalUnsupported \<Rightarrow>
                        Inr (trial, [Evaluate (trial_dir trial) path,
                          Warning ''Skipping evaluation as the necessary methods are not supported''])
                    | EvalRaises e \<Rightarrow> Inl e)))
         \<and> (selected_for_backfill trial
              \<and> \<not> (validation_supplied validation_size \<and> best_model_path (trial_dir trial) \<noteq> None)
              \<longrightarrow> (\<exists>message. backfill_trial validation_size best_model_path evaluate trial
                               = Inr (trial, [Warning message]))
                  \<and> stats_empty (eval_stats trial))"
proof -
  note sel = selected_iff_test [OF assms]
  have not_taken: "backfill_trial validation_size best_model_path evaluate trial = Inr (trial, [])"
    if "\<not> selected_for_backfill trial"
    using that sel by (auto simp: backfill_trial_def)
  have evaluated: "backfill_trial validation_size best_model_path evaluate trial =
        (case evaluate (trial_dir trial) path of
           EvalStats stats \<Rightarrow>
             Inr (trial\<lparr>eval_stats := Text stats\<rparr>, [Evaluate (trial_dir trial) path])
         | EvalUnsupported \<Rightarrow>
             Inr (trial, [Evaluate (trial_dir trial) path,
               Warning ''Skipping evaluation as the necessary methods are not supported''])
         | EvalRaises e \<Rightarrow> Inl e)"
    if "selected_for_backfill trial" and "validation_supplied validation_size"
      and "best_model_path (trial_dir trial) = Some path" for path
    using that sel
    by (auto simp: backfill_trial_def validation_supplied_def evaluate_best_model_def
        split: eval_outcome.splits)
  have skipped: "(\<exists>message. backfill_trial validation_size best_model_path evaluate trial
                               = Inr (trial, [Warning message]))
                  \<and> stats_empty (eval_stats trial)"
    if "selected_for_backfill trial"
      and "\<not> (validation_supplied validation_size \<and> best_model_path (trial_dir trial) \<noteq> None)"
    using that sel
    by (auto simp: backfill_trial_def validation_supplied_def selected_for_backfill_def
        split: option.splits)
  show ?thesis
    using not_taken evaluated skipped by blast
qed

theorem backfill_selection_witness:
  "backfill_trial (Some 10) (\<lambda>p. Some ''/r/a/checkpoint_3'') (\<lambda>t p. EvalStats ''{...}'')
       \<lparr>parameters = Text ''{}'', metric_score = Fin 0.8, training_stats = Text ''{...}'',
        eval_stats = Text ''{}'', trial_id = ''a'', trial_dir = ''/r/a''\<rparr>
     = Inr (\<lparr>parameters = Text ''{}'', metric_score = Fin 0.8,
             training_stats = Text ''{...}'',
             eval_stats = Text ''{...}'', trial_id = ''a'', trial_dir = ''/r/a''\<rparr>,
            [Evaluate ''/r/a'' ''/r/a/checkpoint_3''])
   \<and> (\<exists>message.
        backfill_trial None (\<lambda>p. Some ''/r/a/checkpoint_3'') (\<lambda>t p. EvalStats ''{...}'')
          \<lparr>parameters = Text ''{}'', metric_score = Fin 0.8, training_stats = Text ''{...}'',
           eval_stats = Text ''{}'', trial_id = ''a'', trial_dir = ''/r/a''\<rparr>
        = Inr (\<lparr>parameters = Text ''{}'', metric_score = Fin 0.8,
                training_stats = Text ''{...}'',
                eval_stats = Text ''{}'', trial_id = ''a'', trial_dir = ''/r/a''\<rparr>,
               [Warning message]))
   \<and> backfill_trial (Some 10) (\<lambda>p. Some ''/r/b/checkpoint_1'') (\<lambda>t p. EvalStats ''{...}'')
       \<lparr>parameters = EmptyDict, metric_score = Fin 0.1, training_stats = EmptyDict,
        eval_stats = EmptyDict, trial_id = ''b'', trial_dir = ''/r/b''\<rparr>
     = Inr (\<lparr>parameters = EmptyDict, metric_score = Fin 0.1, training_stats = EmptyDict,
             eval_stats = EmptyDict, trial_id = ''b'', trial_dir = ''/r/b''\<rparr>, [])
   \<and> backfill_trial (Some 10) (\<lambda>p. Some ''/r/c/checkpoint_1'') (\<lambda>t p. EvalStats ''{...}'')
       \<lparr>parameters = Text ''{}'', metric_score = Fin 0.1, training_stats = Text ''{...}'',
        eval_stats = Text ''{...}'', trial_id = ''c'', trial_dir = ''/r/c''\<rparr>
     = Inr (\<lparr>parameters = Text ''{}'', metric_score = Fin 0.1,
             training_stats = Text ''{...}'',
             eval_stats = Text ''{...}'', trial_id = ''c'', trial_dir = ''/r/c''\<rparr>, [])"
proof -
  let ?a = "\<lparr>parameters = Text ''{}'', metric_score = Fin 0.8,
             training_stats = Text ''{...}'',
             eval_stats = Text ''{}'', trial_id = ''a'', trial_dir = ''/r/a''\<rparr>"
  let ?b = "\<lparr>parameters = EmptyDict, metric_score = Fin 0.1, training_stats = EmptyDict,
             eval_stats = EmptyDict, trial_id = ''b'', trial_dir = ''/r/b''\<rparr>"
  let ?c = "\<lparr>parameters = Text ''{}'', metric_score = Fin 0.1,
             training_stats = Text ''{...}'',
             eval_stats = Text ''{...}'', trial_id = ''c'', trial_dir = ''/r/c''\<rparr>"
  have ua: "uniform_row ?a" and ub: "uniform_row ?b" and uc: "uniform_row ?c"
    by (simp_all add: uniform_row_def is_text_def)
  have sa: "selected_for_backfill ?a" and sb: "\<not> selected_for_backfill ?b"
    and sc: "\<not> selected_for_backfill ?c"
    by (simp_all add: selected_for_backfill_def stats_empty_def)
  have v: "validation_supplied (Some 10)" and nv: "\<not> validation_supplied None"
    by (simp_all add: validation_supplied_def)
  from backfill_selection [OF ua, of "Some 10" "\<lambda>p. Some ''/r/a/checkpoint_3''"
      "\<lambda>t p. EvalStats ''{...}''"] sa v
  have 1: "backfill_trial (Some 10) (\<lambda>p. Some ''/r/a/checkpoint_3'')
             (\<lambda>t p. EvalStats ''{...}'') ?a
           = Inr (?a\<lparr>eval_stats := Text ''{...}''\<rparr>, [Evaluate ''/r/a'' ''/r/a/checkpoint_3''])"
    by simp
  from backfill_selection [OF ua, of None "\<lambda>p. Some ''/r/a/checkpoint_3''"
      "\<lambda>t p. EvalStats ''{...}''"] sa nv
  have 2: "\<exists>message. backfill_trial None (\<lambda>p. Some ''/r/a/checkpoint_3'')
             (\<lambda>t p. EvalStats ''{...}'') ?a = Inr (?a, [Warning message])"
    by blast
  from backfill_selection [OF ub, of "Some 10" "\<lambda>p. Some ''/r/b/checkpoint_1''"
      "\<lambda>t p. EvalStats ''{...}''"] sb
  have 3: "backfill_trial (Some 10) (\<lambda>p. Some ''/r/b/checkpoint_1'')
             (\<lambda>t p. EvalStats ''{...}'') ?b = Inr (?b, [])"
    by blast
  from backfill_selection [OF uc, of "Some 10" "\<lambda>p. Some ''/r/c/checkpoint_1''"
      "\<lambda>t p. EvalStats ''{...}''"] sc
  have 4: "backfill_trial (Some 10) (\<lambda>p. Some ''/r/c/checkpoint_1'')
             (\<lambda>t p. EvalStats ''{...}'') ?c = Inr (?c, [])"
    by blast
  from 1 2 3 4 show ?thesis by simp
qed

subsection \<open>Trial runner: the steps before training\<close>

lemma setup_writes_base_config:
  "run_experiment_setup sp mc sampled ctx hyperopt tdir files = Inr (hyperopt', sampled', files')
     \<Longrightarrow> files' (path_join tdir ''trial_hyperparameters.json'') = Some (config hyperopt)"
  by (auto simp: run_experiment_setup_def Let_def split: sum.splits)

text \<open>
  C8. With the base configuration \<open>{"trainer": {"learning_rate": 0.001}}\<close> and the
  sampled record \<open>{"trainer.learning_rate": 0.01}\<close>, the document that
  \<open>_run_experiment\<close> writes to \<open>trial_hyperparameters.json\<close> before training is the base
  configuration: it is not the sampled record, and the sampled value 0.01 is not in it.
\<close>

theorem trial_hyperparameters_file_holds_base_config:
  "(case run_experiment_setup
           (\<lambda>base sampled. PyDict [(''trainer'', PyDict [(''learning_rate'', PyFloat (Fin 0.01))])])
           Inr
           [(''trainer.learning_rate'', PyFloat (Fin 0.01))]
           Map.empty
           \<lparr>config = PyDict [(''trainer'', PyDict [(''learning_rate'', PyFloat (Fin 0.001))])],
            output_directory = ''results''\<rparr>
           ''/results/trial_1''
           Map.empty of
      Inl e \<Rightarrow> False
    | Inr (hyperopt', sampled', files') \<Rightarrow>
        sampled' = [(''trainer.learning_rate'', PyFloat (Fin 0.01))]
        \<and> files' ''/results/trial_1/trial_hyperparameters.json''
            = Some (PyDict [(''trainer'', PyDict [(''learning_rate'', PyFloat (Fin 0.001))])])
        \<and> files' ''/results/trial_1/trial_hyperparameters.json'' \<noteq> Some (PyDict sampled'))"
  by (simp add: run_experiment_setup_def identity_def path_join_def)

subsection \<open>Attributes of the executor\<close>

lemma map_of_setattr_other:
  "name \<noteq> name' \<Longrightarrow> map_of (setattr self name' v) name = map_of self name"
  by (simp add: setattr_def update_conv')

lemma fold_setattr_absent:
  "name \<notin> set names \<Longrightarrow> map_of self name = None
     \<Longrightarrow> map_of (fold (\<lambda>n s. setattr s n (val n)) names self) name = None"
  by (induction names arbitrary: self) (auto simp: map_of_setattr_other)

lemma init_has_no_sampler: "map_of (executor_init val) ''hyperopt_sampler'' = None"
  unfolding executor_init_def
  by (rule fold_setattr_absent) (simp_all add: init_assignments_def)

lemma executions_have_no_sampler:
  "map_of self ''hyperopt_sampler'' = None
     \<Longrightarrow> map_of (fold execute_assignments runs self) ''hyperopt_sampler'' = None"
  by (induction runs arbitrary: self) (simp_all add: execute_assignments_def map_of_setattr_other)

text \<open>
  C10. For an instance built by \<open>__init__\<close>, after any number of runs of \<open>execute\<close>,
  \<open>sort_hyperopt_results\<close> raises \<open>AttributeError\<close> on every list of results:
  \<open>hyperopt_sampler\<close> is neither assigned to the instance nor defined by the class.
\<close>

theorem sort_hyperopt_results_raises:
  "sort_hyperopt_results (fold execute_assignments runs (executor_init val)) hyperopt_results
     = Inl AttributeError"
  using executions_have_no_sampler [OF init_has_no_sampler, of runs val]
  by (simp add: sort_hyperopt_results_def getattr_def class_members_def)

end
